theory Spec2Isabelle
  imports Main
begin

section \<open>Contained types, descriptors and storage\<close>

text \<open>
  The model follows \<^verbatim>\<open>include/kmillet/sized_any/sized_any.hpp\<close>.
  A contained C++ type \<open>T\<close> is known to the container only through
  \<^verbatim>\<open>TypeInfo<T>\<close>: its identity, \<^verbatim>\<open>sizeof(T)\<close> and
  \<^verbatim>\<open>std::is_nothrow_move_constructible_v<T>\<close>.
\<close>

type_synonym addr = nat
type_synonym cid = nat

datatype ty = Ty (tid: nat) (size_of: nat) (nothrow_move: bool)

text \<open>
  \<^verbatim>\<open>const ITypeInfo* info\<close>: the address of the singleton
  \<^verbatim>\<open>info<void>\<close> or of \<^verbatim>\<open>info<T>\<close>. Two descriptor pointers are
  equal exactly when they were taken for the same type.
\<close>

datatype tinfo = TVoid | TInfo ty

text \<open>
  What the leading bytes of a \<^verbatim>\<open>std::array<char, N>\<close> hold: bytes of
  indeterminate value (never written, or left behind by a destroyed object), a live
  object constructed in place, or a pointer stored through \<^verbatim>\<open>void**\<close>. A
  pointer stays in the bytes after the block it names is deleted or handed over.
\<close>

datatype 'v slot = Raw | Obj ty 'v | Ptr addr

text \<open>A block obtained from \<^verbatim>\<open>operator new\<close>: its size and the object living in it.\<close>

datatype 'v block = Block nat "(ty \<times> 'v) option"

datatype event =
    New addr
  | Delete addr
  | Construct ty
  | CopyConstruct ty
  | MoveConstruct ty
  | Destroy ty

text \<open>
  How an operation can end without a result: \<^verbatim>\<open>std::bad_alloc\<close> from
  \<^verbatim>\<open>operator new\<close>, \<^verbatim>\<open>std::bad_any_cast\<close> from the value form of
  \<open>any_cast\<close>, and \<open>Undefined\<close> where the step has no meaning: storage interpreted
  as an object, or followed as a pointer, that is not there, an object destroyed or a
  block freed that is not live. The contained types' own constructors are taken not to
  throw.
\<close>

datatype error = BadAlloc | BadAnyCast | Undefined

text \<open>
  The free store. \<open>room\<close> counts the allocations \<^verbatim>\<open>operator new\<close> can still
  satisfy before it throws \<^verbatim>\<open>std::bad_alloc\<close>; \<open>log\<close> records allocator
  calls and the constructors and destructors run on contained values.
\<close>

record 'v mem =
  heap :: "addr \<Rightarrow> 'v block option"
  room :: nat
  next_addr :: addr
  log :: "event list"

record 'v sized_any =
  info :: tinfo
  buff :: "'v slot"

definition and_then :: "error + 'a \<Rightarrow> ('a \<Rightarrow> error + 'b) \<Rightarrow> error + 'b" where
  "and_then r f = (case r of Inl e \<Rightarrow> Inl e | Inr x \<Rightarrow> f x)"

definition emit :: "event list \<Rightarrow> 'v mem \<Rightarrow> 'v mem" where
  "emit es m = m\<lparr>log := log m @ es\<rparr>"

subsection \<open>Reading storage and the free store\<close>

text \<open>\<^verbatim>\<open>*reinterpret_cast<T*>(p)\<close> on a buffer: defined only where a \<open>T\<close> lives.\<close>

fun load_obj :: "ty \<Rightarrow> 'v slot \<Rightarrow> error + 'v" where
  "load_obj T (Obj T' v) = (if T' = T then Inr v else Inl Undefined)"
| "load_obj T Raw = Inl Undefined"
| "load_obj T (Ptr p) = Inl Undefined"

text \<open>\<^verbatim>\<open>*reinterpret_cast<void**>(p)\<close> on a buffer: defined only where a pointer was stored.\<close>

fun load_ptr :: "'v slot \<Rightarrow> error + addr" where
  "load_ptr (Ptr p) = Inr p"
| "load_ptr Raw = Inl Undefined"
| "load_ptr (Obj T v) = Inl Undefined"

text \<open>
  Indeterminate bytes can be relocated without being looked at. The pointer hand-over
  \<^verbatim>\<open>*reinterpret_cast<void**>(to) = *reinterpret_cast<void**>(from)\<close> copies
  whatever pointer-sized bytes are there, and a move constructor run on indeterminate
  bytes is taken to return and to leave indeterminate bytes behind (\<open>None\<close>), as the
  member-wise moves of the usual value types do. Bytes that hold something else than
  what they are read as stay \<open>Undefined\<close>, and so does every read that has to follow
  or interpret the bytes: \<open>load_obj\<close> and \<open>load_ptr\<close> above.
\<close>

fun copy_ptr :: "'v slot \<Rightarrow> error + 'v slot" where
  "copy_ptr (Ptr p) = Inr (Ptr p)"
| "copy_ptr Raw = Inr Raw"
| "copy_ptr (Obj T v) = Inl Undefined"

fun move_from :: "ty \<Rightarrow> 'v slot \<Rightarrow> error + 'v option" where
  "move_from T (Obj T' v) = (if T' = T then Inr (Some v) else Inl Undefined)"
| "move_from T Raw = Inr None"
| "move_from T (Ptr p) = Inl Undefined"

text \<open>The \<open>T\<close> behind a heap pointer.\<close>

definition heap_obj :: "ty \<Rightarrow> addr \<Rightarrow> 'v mem \<Rightarrow> error + 'v" where
  "heap_obj T p m =
     (case heap m p of
        Some (Block n (Some (T', v))) \<Rightarrow> if T' = T then Inr v else Inl Undefined
      | _ \<Rightarrow> Inl Undefined)"

definition op_new :: "ty \<Rightarrow> 'v mem \<Rightarrow> error + (addr \<times> 'v mem)" where
  "op_new T m =
     (if room m = 0 then Inl BadAlloc
      else Inr (next_addr m,
                m\<lparr>heap := (heap m)(next_addr m \<mapsto> Block (size_of T) None),
                  room := room m - 1,
                  next_addr := Suc (next_addr m),
                  log := log m @ [New (next_addr m)]\<rparr>))"

text \<open>Placement new into a heap block: the block must be raw storage that is large enough.\<close>

definition construct_at :: "addr \<Rightarrow> ty \<Rightarrow> 'v \<Rightarrow> event \<Rightarrow> 'v mem \<Rightarrow> error + 'v mem" where
  "construct_at p T v ev m =
     (case heap m p of
        Some (Block n None) \<Rightarrow>
          if size_of T \<le> n
          then Inr (m\<lparr>heap := (heap m)(p \<mapsto> Block n (Some (T, v))), log := log m @ [ev]\<rparr>)
          else Inl Undefined
      | _ \<Rightarrow> Inl Undefined)"

definition destroy_at :: "addr \<Rightarrow> ty \<Rightarrow> 'v mem \<Rightarrow> error + 'v mem" where
  "destroy_at p T m =
     (case heap m p of
        Some (Block n (Some (T', v))) \<Rightarrow>
          if T' = T
          then Inr (m\<lparr>heap := (heap m)(p \<mapsto> Block n None), log := log m @ [Destroy T]\<rparr>)
          else Inl Undefined
      | _ \<Rightarrow> Inl Undefined)"

definition op_delete :: "addr \<Rightarrow> 'v mem \<Rightarrow> error + 'v mem" where
  "op_delete p m =
     (case heap m p of
        Some (Block n None) \<Rightarrow>
          Inr (m\<lparr>heap := (heap m)(p := None), room := room m + 1, log := log m @ [Delete p]\<rparr>)
      | _ \<Rightarrow> Inl Undefined)"

text \<open>\<^verbatim>\<open>new T(...)\<close>: allocate, then construct. \<^verbatim>\<open>delete p\<close>: destroy, then free.\<close>

definition new_obj :: "ty \<Rightarrow> 'v \<Rightarrow> event \<Rightarrow> 'v mem \<Rightarrow> error + (addr \<times> 'v mem)" where
  "new_obj T v ev m =
     and_then (op_new T m) (\<lambda>(p, m1).
     and_then (construct_at p T v ev m1) (\<lambda>m2. Inr (p, m2)))"

definition delete_obj :: "ty \<Rightarrow> addr \<Rightarrow> 'v mem \<Rightarrow> error + 'v mem" where
  "delete_obj T p m = and_then (destroy_at p T m) (op_delete p)"

subsection \<open>The per-type operation table\<close>

fun Size :: "tinfo \<Rightarrow> nat" where
  "Size TVoid = 0"
| "Size (TInfo T) = size_of T"

fun NeedsAlloc :: "tinfo \<Rightarrow> nat \<Rightarrow> bool" where
  "NeedsAlloc TVoid cap = False"
| "NeedsAlloc (TInfo T) cap = (size_of T > cap \<or> \<not> nothrow_move T)"

fun Copy :: "tinfo \<Rightarrow> 'v slot \<Rightarrow> 'v slot \<Rightarrow> nat \<Rightarrow> nat \<Rightarrow> 'v mem \<Rightarrow> error + ('v slot \<times> 'v mem)" where
  "Copy TVoid src dst fromCap toCap m = Inr (dst, m)"
| "Copy (TInfo T) src dst fromCap toCap m =
     (if NeedsAlloc (TInfo T) toCap then
        if NeedsAlloc (TInfo T) fromCap then
          and_then (op_new T m) (\<lambda>(q, m1).
          and_then (load_ptr src) (\<lambda>p.
          and_then (heap_obj T p m1) (\<lambda>v.
          and_then (construct_at q T v (CopyConstruct T) m1) (\<lambda>m2. Inr (Ptr q, m2)))))
        else
          and_then (op_new T m) (\<lambda>(q, m1).
          and_then (load_obj T src) (\<lambda>v.
          and_then (construct_at q T v (CopyConstruct T) m1) (\<lambda>m2. Inr (Ptr q, m2))))
      else if NeedsAlloc (TInfo T) fromCap then
        and_then (load_ptr src) (\<lambda>p.
        and_then (heap_obj T p m) (\<lambda>v. Inr (Obj T v, emit [CopyConstruct T] m)))
      else
        and_then (load_obj T src) (\<lambda>v. Inr (Obj T v, emit [CopyConstruct T] m)))"

text \<open>
  \<open>Move\<close> returns the source bytes as it leaves them, the destination bytes and the store.
  Heap to heap hands the pointer over and returns at once; heap to inline follows the
  pointer and deletes the source block; the two other cases run the move constructor on
  the inline source and end with the destructor call on it.
\<close>

fun Move :: "tinfo \<Rightarrow> 'v slot \<Rightarrow> 'v slot \<Rightarrow> nat \<Rightarrow> nat \<Rightarrow> 'v mem
               \<Rightarrow> error + ('v slot \<times> 'v slot \<times> 'v mem)" where
  "Move TVoid src dst fromCap toCap m = Inr (src, dst, m)"
| "Move (TInfo T) src dst fromCap toCap m =
     (if NeedsAlloc (TInfo T) toCap then
        if NeedsAlloc (TInfo T) fromCap then
          and_then (copy_ptr src) (\<lambda>d. Inr (src, d, m))
        else
          and_then (op_new T m) (\<lambda>(q, m1).
          and_then (move_from T src) (\<lambda>r.
            case r of
              Some v \<Rightarrow>
                and_then (construct_at q T v (MoveConstruct T) m1) (\<lambda>m2.
                  Inr (Raw, Ptr q, emit [Destroy T] m2))
            | None \<Rightarrow> Inr (Raw, Ptr q, emit [MoveConstruct T, Destroy T] m1)))
      else if NeedsAlloc (TInfo T) fromCap then
        and_then (load_ptr src) (\<lambda>p.
        and_then (heap_obj T p m) (\<lambda>v.
        and_then (delete_obj T p (emit [MoveConstruct T] m)) (\<lambda>m1.
          Inr (src, Obj T v, m1))))
      else
        and_then (move_from T src) (\<lambda>r.
          Inr (Raw, (case r of Some v \<Rightarrow> Obj T v | None \<Rightarrow> Raw),
               emit [MoveConstruct T, Destroy T] m)))"

fun DestructReuseHeap :: "tinfo \<Rightarrow> 'v slot \<Rightarrow> 'v mem \<Rightarrow> error + 'v mem" where
  "DestructReuseHeap TVoid b m = Inr m"
| "DestructReuseHeap (TInfo T) b m = and_then (load_ptr b) (\<lambda>p. destroy_at p T m)"

fun CleanUp :: "tinfo \<Rightarrow> 'v slot \<Rightarrow> nat \<Rightarrow> 'v mem \<Rightarrow> error + ('v slot \<times> 'v mem)" where
  "CleanUp TVoid b cap m = Inr (b, m)"
| "CleanUp (TInfo T) b cap m =
     (if NeedsAlloc (TInfo T) cap then
        and_then (load_ptr b) (\<lambda>p.
        and_then (delete_obj T p m) (\<lambda>m1. Inr (b, m1)))
      else
        and_then (load_obj T b) (\<lambda>v. Inr (Raw, emit [Destroy T] m)))"

section \<open>The container\<close>

text \<open>The capacity \<open>N\<close> is a template parameter; each operation takes it as an argument.\<close>

definition sized_any_default :: "'v sized_any" where
  "sized_any_default = \<lparr>info = TVoid, buff = Raw\<rparr>"

definition sized_any_copy :: "nat \<Rightarrow> nat \<Rightarrow> 'v sized_any \<Rightarrow> 'v mem \<Rightarrow> error + ('v sized_any \<times> 'v mem)" where
  "sized_any_copy N M other m =
     and_then (Copy (info other) (buff other) Raw M N m) (\<lambda>(b, m1).
       Inr (\<lparr>info = info other, buff = b\<rparr>, m1))"

text \<open>Move construction returns the new container and the source as it is left.\<close>

definition sized_any_move :: "nat \<Rightarrow> nat \<Rightarrow> 'v sized_any \<Rightarrow> 'v mem
                               \<Rightarrow> error + ('v sized_any \<times> 'v sized_any \<times> 'v mem)" where
  "sized_any_move N M other m =
     and_then (Move (info other) (buff other) Raw M N m) (\<lambda>(ob, b, m1).
       Inr (\<lparr>info = info other, buff = b\<rparr>, \<lparr>info = TVoid, buff = ob\<rparr>, m1))"

text \<open>
  The two move constructors as declared:
  \<^verbatim>\<open>sized_any(sized_any&& other) noexcept\<close> and
  \<^verbatim>\<open>template<std::size_t M> sized_any(sized_any<M>&& other) noexcept(M < N)\<close>.
\<close>

definition move_ctor_same_noexcept :: bool where
  "move_ctor_same_noexcept = True"

definition move_ctor_template_noexcept :: "nat \<Rightarrow> nat \<Rightarrow> bool" where
  "move_ctor_template_noexcept N M = (M < N)"

text \<open>
  What move construction of a \<^verbatim>\<open>sized_any<N>\<close> from a \<^verbatim>\<open>sized_any<M>\<close>
  rvalue declares: for \<open>M = N\<close> both constructors match exactly and overload resolution
  takes the non-template one; for any other \<open>M\<close> only the template is viable.
\<close>

definition move_ctor_noexcept :: "nat \<Rightarrow> nat \<Rightarrow> bool" where
  "move_ctor_noexcept N M =
     (if M = N then move_ctor_same_noexcept else move_ctor_template_noexcept N M)"

definition sized_any_value :: "nat \<Rightarrow> ty \<Rightarrow> 'v \<Rightarrow> 'v mem \<Rightarrow> error + ('v sized_any \<times> 'v mem)" where
  "sized_any_value N T v m =
     (if NeedsAlloc (TInfo T) N then
        and_then (new_obj T v (Construct T) m) (\<lambda>(p, m1).
          Inr (\<lparr>info = TInfo T, buff = Ptr p\<rparr>, m1))
      else Inr (\<lparr>info = TInfo T, buff = Obj T v\<rparr>, emit [Construct T] m))"

definition sized_any_in_place :: "nat \<Rightarrow> ty \<Rightarrow> 'v \<Rightarrow> 'v mem \<Rightarrow> error + ('v sized_any \<times> 'v mem)" where
  "sized_any_in_place N T v m =
     (if NeedsAlloc (TInfo T) N then
        and_then (new_obj T v (Construct T) m) (\<lambda>(p, m1).
          Inr (\<lparr>info = TInfo T, buff = Ptr p\<rparr>, m1))
      else Inr (\<lparr>info = TInfo T, buff = Obj T v\<rparr>, emit [Construct T] m))"

definition reset :: "nat \<Rightarrow> 'v sized_any \<Rightarrow> 'v mem \<Rightarrow> error + ('v sized_any \<times> 'v mem)" where
  "reset N c m =
     (if info c = TVoid then Inr (c, m)
      else and_then (CleanUp (info c) (buff c) N m) (\<lambda>(b, m1).
             Inr (\<lparr>info = TVoid, buff = b\<rparr>, m1)))"

text \<open>The destructor is a call of \<open>reset\<close>; afterwards the object is gone.\<close>

definition destructor :: "nat \<Rightarrow> 'v sized_any \<Rightarrow> 'v mem \<Rightarrow> error + 'v mem" where
  "destructor N c m = and_then (reset N c m) (\<lambda>(c1, m1). Inr m1)"

definition has_value :: "'v sized_any \<Rightarrow> bool" where
  "has_value c = (info c \<noteq> TVoid)"

definition emplace :: "nat \<Rightarrow> ty \<Rightarrow> 'v \<Rightarrow> 'v sized_any \<Rightarrow> 'v mem \<Rightarrow> error + ('v sized_any \<times> 'v mem)" where
  "emplace N T v c m =
     (if NeedsAlloc (TInfo T) N then
        (if NeedsAlloc (info c) N \<and> Size (info c) = Size (TInfo T) then
           and_then (DestructReuseHeap (info c) (buff c) m) (\<lambda>m1.
           and_then (load_ptr (buff c)) (\<lambda>p.
           and_then (construct_at p T v (Construct T) m1) (\<lambda>m2.
             Inr (\<lparr>info = TInfo T, buff = buff c\<rparr>, m2))))
         else
           and_then (CleanUp (info c) (buff c) N m) (\<lambda>(b, m1).
           and_then (new_obj T v (Construct T) m1) (\<lambda>(p, m2).
             Inr (\<lparr>info = TInfo T, buff = Ptr p\<rparr>, m2))))
      else
        and_then (CleanUp (info c) (buff c) N m) (\<lambda>(b, m1).
          Inr (\<lparr>info = TInfo T, buff = Obj T v\<rparr>, emit [Construct T] m1)))"

text \<open>
  The body of the same-capacity \<open>swap\<close> after its identity check, on two distinct
  objects: \<open>this\<close> and \<open>other\<close>. The temporary array starts uninitialised. The third
  move is made through \<open>this\<close>'s descriptor, as the source has it.
\<close>

definition swap_body :: "nat \<Rightarrow> 'v sized_any \<Rightarrow> 'v sized_any \<Rightarrow> 'v mem
                          \<Rightarrow> error + ('v sized_any \<times> 'v sized_any \<times> 'v mem)" where
  "swap_body N this other m =
     and_then (Move (info other) (buff other) Raw N N m) (\<lambda>(ob1, tmp1, m1).
     and_then (Move (info this) (buff this) ob1 N N m1) (\<lambda>(tb1, ob2, m2).
     and_then (Move (info this) tmp1 tb1 N N m2) (\<lambda>(tmp2, tb2, m3).
       if info this \<noteq> info other
       then Inr (\<lparr>info = info other, buff = tb2\<rparr>, \<lparr>info = info this, buff = ob2\<rparr>, m3)
       else Inr (\<lparr>info = info this, buff = tb2\<rparr>, \<lparr>info = info other, buff = ob2\<rparr>, m3))))"

text \<open>
  \<open>swap\<close> with a container of another capacity \<open>M\<close>. The temporary has the smaller
  capacity. For \<open>M < N\<close> it receives \<open>this\<close>'s value and is emptied through \<open>this\<close>'s
  descriptor; otherwise it receives \<open>other\<close>'s value and is again emptied through
  \<open>this\<close>'s descriptor.
\<close>

definition swap_cross :: "nat \<Rightarrow> nat \<Rightarrow> 'v sized_any \<Rightarrow> 'v sized_any \<Rightarrow> 'v mem
                           \<Rightarrow> error + ('v sized_any \<times> 'v sized_any \<times> 'v mem)" where
  "swap_cross N M this other m =
     (if M < N then
        and_then (Move (info this) (buff this) Raw N M m) (\<lambda>(tb1, tmp1, m1).
        and_then (Move (info other) (buff other) tb1 M N m1) (\<lambda>(ob1, tb2, m2).
        and_then (Move (info this) tmp1 ob1 M M m2) (\<lambda>(tmp2, ob2, m3).
          if info this \<noteq> info other
          then Inr (\<lparr>info = info other, buff = tb2\<rparr>, \<lparr>info = info this, buff = ob2\<rparr>, m3)
          else Inr (\<lparr>info = info this, buff = tb2\<rparr>, \<lparr>info = info other, buff = ob2\<rparr>, m3))))
      else
        and_then (Move (info other) (buff other) Raw M N m) (\<lambda>(ob1, tmp1, m1).
        and_then (Move (info this) (buff this) ob1 N M m1) (\<lambda>(tb1, ob2, m2).
        and_then (Move (info this) tmp1 tb1 N N m2) (\<lambda>(tmp2, tb2, m3).
          if info this \<noteq> info other
          then Inr (\<lparr>info = info other, buff = tb2\<rparr>, \<lparr>info = info this, buff = ob2\<rparr>, m3)
          else Inr (\<lparr>info = info this, buff = tb2\<rparr>, \<lparr>info = info other, buff = ob2\<rparr>, m3)))))"

subsection \<open>Type-checked access\<close>

text \<open>
  What the pointer form of \<open>any_cast\<close> returns: the null pointer, the address of the
  operand's own buffer, or the heap pointer read from that buffer. \<open>any_cast_ptr\<close> is
  the overload for a pointer to a non-const container.
\<close>

datatype vptr = Null | BuffData | HeapAt addr

fun any_cast_ptr :: "ty \<Rightarrow> nat \<Rightarrow> 'v sized_any option \<Rightarrow> error + vptr" where
  "any_cast_ptr T N None = Inr Null"
| "any_cast_ptr T N (Some operand) =
     (if info operand \<noteq> TInfo T then Inr Null
      else if NeedsAlloc (TInfo T) N then and_then (load_ptr (buff operand)) (\<lambda>p. Inr (HeapAt p))
      else Inr BuffData)"

text \<open>
  The overload for a pointer to a const container. Its in-place branch is that of the
  overload above. Its branch for a \<open>T\<close> that is heap-held at \<open>N\<close> applies
  \<^verbatim>\<open>reinterpret_cast<const T**>\<close> to \<^verbatim>\<open>operand->buff.data()\<close>, which is a
  \<^verbatim>\<open>const char*\<close> there; the cast drops the const and is ill-formed, so for such
  \<open>T\<close> and \<open>N\<close> the template has no instantiation to call: \<open>None\<close>, whatever the
  operand.
\<close>

definition any_cast_ptr_const :: "ty \<Rightarrow> nat \<Rightarrow> 'v sized_any option \<Rightarrow> (error + vptr) option" where
  "any_cast_ptr_const T N operand =
     (if NeedsAlloc (TInfo T) N then None
      else Some (case operand of
                   None \<Rightarrow> Inr Null
                 | Some c \<Rightarrow> if info c \<noteq> TInfo T then Inr Null else Inr BuffData))"

text \<open>Dereferencing such a pointer as a \<open>T\<close>, relative to the operand it was taken from.\<close>

fun deref :: "ty \<Rightarrow> vptr \<Rightarrow> 'v sized_any \<Rightarrow> 'v mem \<Rightarrow> error + 'v" where
  "deref T Null c m = Inl Undefined"
| "deref T BuffData c m = load_obj T (buff c)"
| "deref T (HeapAt p) c m = heap_obj T p m"

definition any_cast :: "ty \<Rightarrow> nat \<Rightarrow> 'v sized_any \<Rightarrow> 'v mem \<Rightarrow> error + 'v" where
  "any_cast T N operand m =
     and_then (any_cast_ptr T N (Some operand)) (\<lambda>casted.
       if casted \<noteq> Null then deref T casted operand m else Inl BadAnyCast)"

subsection \<open>Objects with identity\<close>

text \<open>
  Self-assignment and self-swap are decided by comparing addresses, so these operations
  work on a store of containers named by their addresses. A temporary is a value outside
  the store, distinct from every stored object.
\<close>

type_synonym 'v objs = "cid \<Rightarrow> 'v sized_any option"

definition swap_same :: "nat \<Rightarrow> cid \<Rightarrow> cid \<Rightarrow> 'v objs \<Rightarrow> 'v mem \<Rightarrow> error + ('v objs \<times> 'v mem)" where
  "swap_same N this other os m =
     (if other = this then Inr (os, m)
      else case (os this, os other) of
             (Some a, Some b) \<Rightarrow>
               and_then (swap_body N a b m) (\<lambda>(a1, b1, m1).
                 Inr (os(this \<mapsto> a1, other \<mapsto> b1), m1))
           | _ \<Rightarrow> Inl Undefined)"

definition assign_copy :: "nat \<Rightarrow> cid \<Rightarrow> cid \<Rightarrow> 'v objs \<Rightarrow> 'v mem \<Rightarrow> error + ('v objs \<times> 'v mem)" where
  "assign_copy N this rhs os m =
     (if rhs = this then Inr (os, m)
      else case (os this, os rhs) of
             (Some a, Some r) \<Rightarrow>
               and_then (sized_any_copy N N r m) (\<lambda>(tmp, m1).
               and_then (swap_body N tmp a m1) (\<lambda>(tmp1, a1, m2).
               and_then (destructor N tmp1 m2) (\<lambda>m3.
                 Inr (os(this \<mapsto> a1), m3))))
           | _ \<Rightarrow> Inl Undefined)"

definition assign_move :: "nat \<Rightarrow> cid \<Rightarrow> cid \<Rightarrow> 'v objs \<Rightarrow> 'v mem \<Rightarrow> error + ('v objs \<times> 'v mem)" where
  "assign_move N this rhs os m =
     (if rhs = this then Inr (os, m)
      else case (os this, os rhs) of
             (Some a, Some r) \<Rightarrow>
               and_then (sized_any_move N N r m) (\<lambda>(tmp, r1, m1).
               and_then (swap_body N tmp a m1) (\<lambda>(tmp1, a1, m2).
               and_then (destructor N tmp1 m2) (\<lambda>m3.
                 Inr (os(rhs \<mapsto> r1, this \<mapsto> a1), m3))))
           | _ \<Rightarrow> Inl Undefined)"


subsection \<open>The representation invariant\<close>

text \<open>
  A container of capacity \<open>N\<close> is well formed in a store when its buffer holds what its
  descriptor says: nothing to speak of when empty, a pointer to a live \<open>T\<close> in a block of
  \<open>T\<close>'s size when \<open>T\<close> needs allocation at \<open>N\<close>, a live \<open>T\<close> in place otherwise.
\<close>

definition wf_any :: "nat \<Rightarrow> 'v sized_any \<Rightarrow> 'v mem \<Rightarrow> bool" where
  "wf_any N c m =
     (case info c of
        TVoid \<Rightarrow> True
      | TInfo T \<Rightarrow>
          if NeedsAlloc (TInfo T) N
          then (case buff c of
                  Ptr p \<Rightarrow> (case heap m p of
                              Some (Block n (Some (T', v))) \<Rightarrow> T' = T \<and> n = size_of T
                            | _ \<Rightarrow> False)
                | _ \<Rightarrow> False)
          else (case buff c of Obj T' v \<Rightarrow> T' = T | _ \<Rightarrow> False))"

text \<open>The value a well-formed container holds, with its type; \<open>None\<close> when empty.\<close>

definition contents :: "nat \<Rightarrow> 'v sized_any \<Rightarrow> 'v mem \<Rightarrow> (ty \<times> 'v) option" where
  "contents N c m =
     (case info c of
        TVoid \<Rightarrow> None
      | TInfo T \<Rightarrow> (case any_cast T N c m of Inr v \<Rightarrow> Some (T, v) | Inl e \<Rightarrow> None))"

subsection \<open>Observing an operation\<close>

text \<open>The calls of \<^verbatim>\<open>operator new\<close> and \<^verbatim>\<open>operator delete\<close> among some events.\<close>

definition allocator_calls :: "event list \<Rightarrow> event list" where
  "allocator_calls es =
     filter (\<lambda>e. case e of New a \<Rightarrow> True | Delete a \<Rightarrow> True | _ \<Rightarrow> False) es"

text \<open>
  An operation that took container \<open>c\<close> in store \<open>m\<close> to \<open>c'\<close> in \<open>m'\<close> reused the
  heap block of \<open>c\<close>: the buffer still holds the same pointer and the allocator was not
  called in between.
\<close>

definition reuses_block :: "'v sized_any \<Rightarrow> 'v mem \<Rightarrow> 'v sized_any \<Rightarrow> 'v mem \<Rightarrow> bool" where
  "reuses_block c m c' m' =
     ((case buff c of Ptr p \<Rightarrow> buff c' = Ptr p | _ \<Rightarrow> False)
      \<and> allocator_calls (drop (length (log m)) (log m')) = [])"

text \<open>\<^verbatim>\<open>a.swap(b); a.swap(b);\<close>\<close>

definition swap_twice :: "nat \<Rightarrow> cid \<Rightarrow> cid \<Rightarrow> 'v objs \<Rightarrow> 'v mem \<Rightarrow> error + ('v objs \<times> 'v mem)" where
  "swap_twice N a b os m =
     and_then (swap_same N a b os m) (\<lambda>(os1, m1). swap_same N a b os1 m1)"

subsection \<open>Concrete types and stores\<close>

text \<open>
  \<^verbatim>\<open>int\<close>, \<^verbatim>\<open>std::string\<close>, a struct of four pointers and
  \<^verbatim>\<open>std::vector<int>\<close> as an LP64 platform has them, and a store with an empty
  heap in which \<open>r\<close> allocations can succeed.
\<close>

abbreviation int_ty :: ty where
  "int_ty \<equiv> Ty 1 4 True"

abbreviation string_ty :: ty where
  "string_ty \<equiv> Ty 2 32 True"

abbreviation quad_ty :: ty where
  "quad_ty \<equiv> Ty 3 32 True"

abbreviation vector_ty :: ty where
  "vector_ty \<equiv> Ty 4 24 True"

abbreviation fresh_mem :: "nat \<Rightarrow> int mem" where
  "fresh_mem r \<equiv> \<lparr>heap = Map.empty, room = r, next_addr = 0, log = []\<rparr>"

section \<open>Basic facts\<close>

lemma and_then_Inr [simp]: "and_then (Inr x) f = f x"
  by (simp add: and_then_def)

lemma and_then_Inl [simp]: "and_then (Inl e) f = Inl e"
  by (simp add: and_then_def)

lemma new_obj_eq:
  "new_obj T v ev m =
     (if room m = 0 then Inl BadAlloc
      else Inr (next_addr m,
                m\<lparr>heap := (heap m)(next_addr m \<mapsto> Block (size_of T) (Some (T, v))),
                  room := room m - 1,
                  next_addr := Suc (next_addr m),
                  log := log m @ [New (next_addr m), ev]\<rparr>))"
  by (simp add: new_obj_def op_new_def construct_at_def)

lemma and_then_eq_Inr:
  "and_then r f = Inr y \<longleftrightarrow> (\<exists>x. r = Inr x \<and> f x = Inr y)"
  by (cases r) simp_all

lemma NeedsAlloc_mono: "M \<le> N \<Longrightarrow> NeedsAlloc i N \<Longrightarrow> NeedsAlloc i M"
  by (cases i) auto

lemma wf_heap:
  assumes "wf_any N c m" "info c = TInfo T" "NeedsAlloc (TInfo T) N"
  shows "\<exists>p v. buff c = Ptr p \<and> heap m p = Some (Block (size_of T) (Some (T, v)))"
  using assms
  by (auto simp: wf_any_def split: slot.splits option.splits block.splits if_splits)

lemma wf_inline:
  assumes "wf_any N c m" "info c = TInfo T" "\<not> NeedsAlloc (TInfo T) N"
  shows "\<exists>v. buff c = Obj T v"
  using assms
  by (auto simp: wf_any_def split: slot.splits option.splits block.splits if_splits)

lemma sized_any_value_eq:
  "sized_any_value N T v m =
     (if NeedsAlloc (TInfo T) N then
        if room m = 0 then Inl BadAlloc
        else Inr (\<lparr>info = TInfo T, buff = Ptr (next_addr m)\<rparr>,
                  m\<lparr>heap := (heap m)(next_addr m \<mapsto> Block (size_of T) (Some (T, v))),
                    room := room m - 1,
                    next_addr := Suc (next_addr m),
                    log := log m @ [New (next_addr m), Construct T]\<rparr>)
      else Inr (\<lparr>info = TInfo T, buff = Obj T v\<rparr>, emit [Construct T] m))"
  by (simp add: sized_any_value_def new_obj_eq)

text \<open>
  Moving out of a well-formed container fails only for want of memory, and only when the
  value sits inline at the source capacity and needs a block at the destination capacity.
\<close>

lemma Move_wf_cases:
  assumes "wf_any M c m"
  shows "(NeedsAlloc (info c) N \<and> \<not> NeedsAlloc (info c) M \<and> room m = 0
            \<and> Move (info c) (buff c) d M N m = Inl BadAlloc)
       \<or> (\<not> (NeedsAlloc (info c) N \<and> \<not> NeedsAlloc (info c) M \<and> room m = 0)
            \<and> (\<exists>r. Move (info c) (buff c) d M N m = Inr r))"
proof (cases "info c")
  case TVoid
  then show ?thesis by simp
next
  case (TInfo T)
  show ?thesis
  proof (cases "NeedsAlloc (TInfo T) M")
    case True
    from wf_heap [OF assms TInfo True] obtain p v where
      "buff c = Ptr p" "heap m p = Some (Block (size_of T) (Some (T, v)))" by blast
    with TInfo True show ?thesis
      by (simp add: heap_obj_def delete_obj_def destroy_at_def op_delete_def emit_def
               del: NeedsAlloc.simps)
  next
    case False
    from wf_inline [OF assms TInfo False] obtain v where "buff c = Obj T v" by blast
    with TInfo False show ?thesis
      by (simp add: op_new_def construct_at_def del: NeedsAlloc.simps)
  qed
qed

lemma delete_obj_eq:
  "delete_obj T p m =
     (case heap m p of
        Some (Block n (Some (T', v))) \<Rightarrow>
          if T' = T
          then Inr (m\<lparr>heap := (heap m)(p := None), room := room m + 1,
                     log := log m @ [Destroy T, Delete p]\<rparr>)
          else Inl Undefined
      | _ \<Rightarrow> Inl Undefined)"
  by (simp add: delete_obj_def destroy_at_def op_delete_def
           split: option.splits block.splits prod.splits)

lemma delete_obj_log:
  assumes "delete_obj T p m = Inr m1"
  shows "log m1 = log m @ [Destroy T, Delete p]"
  using assms
  by (auto simp: delete_obj_eq split: option.splits block.splits if_splits)

lemma CleanUp_log:
  assumes "CleanUp i b N m = Inr (b', m1)"
  shows "\<exists>es. log m1 = log m @ es"
proof (cases i)
  case TVoid
  with assms show ?thesis by simp
next
  case (TInfo U)
  show ?thesis
  proof (cases "NeedsAlloc (TInfo U) N")
    case True
    with assms TInfo obtain p where "delete_obj U p m = Inr m1"
      by (auto simp: and_then_eq_Inr simp del: NeedsAlloc.simps)
    from delete_obj_log [OF this] show ?thesis by blast
  next
    case False
    with assms TInfo have "m1 = emit [Destroy U] m"
      by (auto simp: and_then_eq_Inr simp del: NeedsAlloc.simps)
    then show ?thesis by (simp add: emit_def)
  qed
qed

text \<open>The equations that run the constructors, \<open>reset\<close>, \<open>swap\<close> and \<open>any_cast\<close>.\<close>

lemmas run_defs =
  sized_any_default_def sized_any_copy_def sized_any_move_def sized_any_value_eq
  reset_def has_value_def swap_body_def any_cast_def heap_obj_def op_new_def
  construct_at_def delete_obj_eq emit_def

section \<open>The descriptor's allocation predicate\<close>

text \<open>
  C8. For every contained type \<open>T\<close> and every capacity, \<open>NeedsAlloc\<close> of \<open>T\<close>'s
  descriptor is true exactly when \<open>T\<close> is larger than the capacity or \<open>T\<close> is not
  nothrow-move-constructible.
\<close>

theorem NeedsAlloc_iff:
  "NeedsAlloc (TInfo T) cap \<longleftrightarrow> (size_of T > cap \<or> \<not> nothrow_move T)"
  by simp

theorem NeedsAlloc_iff_witness:
  "NeedsAlloc (TInfo (Ty 2 32 True)) 8 \<and> \<not> NeedsAlloc (TInfo (Ty 2 32 True)) 32
     \<and> NeedsAlloc (TInfo (Ty 3 4 False)) 32"
  using NeedsAlloc_iff [of "Ty 2 32 True" 8] NeedsAlloc_iff [of "Ty 2 32 True" 32]
        NeedsAlloc_iff [of "Ty 3 4 False" 32]
  by simp

section \<open>The empty container\<close>

text \<open>
  C10. On an empty container, whatever its buffer holds, \<open>reset\<close> and the destructor
  return the container and the store as they were: no destructor runs, nothing is
  freed, and the buffer is not read. Every operation of the void descriptor leaves its
  arguments and the store untouched.
\<close>

theorem reset_empty_noop:
  "reset N \<lparr>info = TVoid, buff = b\<rparr> m = Inr (\<lparr>info = TVoid, buff = b\<rparr>, m)
   \<and> destructor N \<lparr>info = TVoid, buff = b\<rparr> m = Inr m
   \<and> CleanUp TVoid b N m = Inr (b, m)
   \<and> DestructReuseHeap TVoid b m = Inr m
   \<and> Move TVoid b b' M N m = Inr (b, b', m)
   \<and> Copy TVoid b b' M N m = Inr (b', m)"
  by (simp add: reset_def destructor_def)

theorem reset_empty_noop_witness:
  "reset 32 sized_any_default \<lparr>heap = Map.empty, room = 0, next_addr = 0, log = []\<rparr>
     = Inr (sized_any_default :: int sized_any,
            \<lparr>heap = Map.empty, room = 0, next_addr = 0, log = []\<rparr>)
   \<and> destructor 32 (sized_any_default :: int sized_any)
        \<lparr>heap = Map.empty, room = 0, next_addr = 0, log = []\<rparr>
     = Inr \<lparr>heap = Map.empty, room = 0, next_addr = 0, log = []\<rparr>"
  using reset_empty_noop [of 32 "Raw :: int slot"
          "\<lparr>heap = Map.empty, room = 0, next_addr = 0, log = []\<rparr>"]
  by (simp add: sized_any_default_def)

section \<open>Self-assignment and self-swap\<close>

text \<open>
  C7. Assigning a container to itself, by copy or by move, and swapping it with itself
  are decided by comparing the two addresses and change nothing: the stored objects,
  the heap and the log of destructor and allocator calls stay as they were.
\<close>

theorem self_assign_self_swap_noop:
  "assign_copy N a a os m = Inr (os, m)
   \<and> assign_move N a a os m = Inr (os, m)
   \<and> swap_same N a a os m = Inr (os, m)"
  by (simp add: assign_copy_def assign_move_def swap_same_def)

text \<open>
  At a concrete store; the last line shows that two distinct containers holding equal
  values are not taken for the same one: the assignment copies.
\<close>

theorem self_assign_self_swap_noop_witness:
  "assign_copy 32 0 0 [0 \<mapsto> \<lparr>info = TInfo (Ty 1 4 True), buff = Obj (Ty 1 4 True) (42::int)\<rparr>]
       \<lparr>heap = Map.empty, room = 0, next_addr = 0, log = []\<rparr>
     = Inr ([0 \<mapsto> \<lparr>info = TInfo (Ty 1 4 True), buff = Obj (Ty 1 4 True) 42\<rparr>],
            \<lparr>heap = Map.empty, room = 0, next_addr = 0, log = []\<rparr>)
   \<and> swap_same 32 0 0 [0 \<mapsto> \<lparr>info = TInfo (Ty 1 4 True), buff = Obj (Ty 1 4 True) (42::int)\<rparr>]
       \<lparr>heap = Map.empty, room = 0, next_addr = 0, log = []\<rparr>
     = Inr ([0 \<mapsto> \<lparr>info = TInfo (Ty 1 4 True), buff = Obj (Ty 1 4 True) 42\<rparr>],
            \<lparr>heap = Map.empty, room = 0, next_addr = 0, log = []\<rparr>)
   \<and> (case assign_copy 32 0 1
              [0 \<mapsto> \<lparr>info = TInfo (Ty 1 4 True), buff = Obj (Ty 1 4 True) (42::int)\<rparr>,
               1 \<mapsto> \<lparr>info = TInfo (Ty 1 4 True), buff = Obj (Ty 1 4 True) 42\<rparr>]
              \<lparr>heap = Map.empty, room = 0, next_addr = 0, log = []\<rparr> of
         Inr (os, m) \<Rightarrow> hd (log m) = CopyConstruct (Ty 1 4 True)
       | Inl e \<Rightarrow> False)"
  using self_assign_self_swap_noop [of 32 0
          "[0 \<mapsto> \<lparr>info = TInfo (Ty 1 4 True), buff = Obj (Ty 1 4 True) (42::int)\<rparr>]"
          "\<lparr>heap = Map.empty, room = 0, next_addr = 0, log = []\<rparr>"]
  by (simp add: assign_copy_def sized_any_copy_def swap_body_def destructor_def reset_def emit_def)

section \<open>Construction and extraction\<close>

text \<open>
  C4. For every type \<open>T\<close>, value \<open>v\<close> and capacity \<open>N\<close>: unless \<open>T\<close> needs a heap
  block at \<open>N\<close> and the allocator has none left, constructing a container from \<open>v\<close>
  succeeds; extracting as \<open>T\<close> then returns \<open>v\<close>, and extracting as any other type
  fails with the bad-cast error. (The bound of \<open>N\<close> by the pointer size is not needed.)
\<close>

theorem construct_then_extract:
  assumes "0 < room m \<or> \<not> NeedsAlloc (TInfo T) N"
  shows "\<exists>c m'. sized_any_value N T v m = Inr (c, m')
           \<and> any_cast T N c m' = Inr v
           \<and> (\<forall>T'. T' \<noteq> T \<longrightarrow> any_cast T' N c m' = Inl BadAnyCast)"
proof (cases "NeedsAlloc (TInfo T) N")
  case True
  with assms have "room m \<noteq> 0" by auto
  with True show ?thesis
    by (simp add: sized_any_value_eq any_cast_def heap_obj_def del: NeedsAlloc.simps)
next
  case False
  then show ?thesis
    by (simp add: sized_any_value_eq any_cast_def del: NeedsAlloc.simps)
qed

theorem construct_then_extract_witness:
  "(0 < room \<lparr>heap = Map.empty, room = 1, next_addr = 0, log = []\<rparr>
      \<or> \<not> NeedsAlloc (TInfo (Ty 2 32 True)) 8)
   \<and> (\<exists>c m'. sized_any_value 8 (Ty 2 32 True) (7::int)
                \<lparr>heap = Map.empty, room = 1, next_addr = 0, log = []\<rparr> = Inr (c, m')
          \<and> any_cast (Ty 2 32 True) 8 c m' = Inr 7
          \<and> any_cast (Ty 1 4 True) 8 c m' = Inl BadAnyCast)"
proof -
  have h: "0 < room \<lparr>heap = Map.empty, room = 1, next_addr = 0, log = []\<rparr>
             \<or> \<not> NeedsAlloc (TInfo (Ty 2 32 True)) 8"
    by simp
  from construct_then_extract [OF h, of "7::int"] obtain c m' where
    "sized_any_value 8 (Ty 2 32 True) (7::int)
       \<lparr>heap = Map.empty, room = 1, next_addr = 0, log = []\<rparr> = Inr (c, m')"
    "any_cast (Ty 2 32 True) 8 c m' = Inr 7"
    "\<forall>T'. T' \<noteq> Ty 2 32 True \<longrightarrow> any_cast T' 8 c m' = Inl BadAnyCast"
    by blast
  moreover have "Ty 1 4 True \<noteq> Ty 2 32 True" by simp
  ultimately show ?thesis using h by blast
qed

section \<open>Pointer access\<close>

text \<open>
  The overload for a non-const container returns the null pointer for a null operand
  without looking at anything, and the null pointer whenever the operand's descriptor
  is not the requested type's. When the descriptor is the requested one and the
  container is well formed, it returns a non-null pointer, and a \<open>T\<close> lives where it
  points. It never raises.
\<close>

lemma any_cast_ptr_total:
  "any_cast_ptr T N None = Inr Null
   \<and> (info c \<noteq> TInfo T \<longrightarrow> any_cast_ptr T N (Some c) = Inr Null)
   \<and> (info c = TInfo T \<longrightarrow> wf_any N c m \<longrightarrow>
        (\<exists>p v. any_cast_ptr T N (Some c) = Inr p \<and> p \<noteq> Null \<and> deref T p c m = Inr v))"
proof (intro conjI impI)
  assume i: "info c = TInfo T" and w: "wf_any N c m"
  show "\<exists>p v. any_cast_ptr T N (Some c) = Inr p \<and> p \<noteq> Null \<and> deref T p c m = Inr v"
  proof (cases "NeedsAlloc (TInfo T) N")
    case True
    from wf_heap [OF w i True] obtain p v where
      "buff c = Ptr p" "heap m p = Some (Block (size_of T) (Some (T, v)))" by blast
    with i True show ?thesis
      by (simp add: heap_obj_def del: NeedsAlloc.simps)
  next
    case False
    from wf_inline [OF w i False] obtain v where "buff c = Obj T v" by blast
    with i False show ?thesis
      by (simp del: NeedsAlloc.simps)
  qed
qed simp_all

text \<open>
  C6. The two pointer-returning overloads are not both total. For a capacity-8
  container holding a \<^verbatim>\<open>std::string\<close>, which is heap-held there, the overload
  for a const container has no instantiation, for a null operand as for any other,
  while the overload for a non-const container returns the stored heap pointer. For an
  \<^verbatim>\<open>int\<close>, which is held in place, the const overload exists and returns the
  buffer address.
\<close>

theorem any_cast_ptr_const_heap_held:
  "any_cast_ptr_const string_ty 8 (Some \<lparr>info = TInfo string_ty, buff = Ptr 4 :: int slot\<rparr>)
     = None
   \<and> any_cast_ptr_const string_ty 8 (None :: int sized_any option) = None
   \<and> any_cast_ptr string_ty 8 (Some \<lparr>info = TInfo string_ty, buff = Ptr 4 :: int slot\<rparr>)
     = Inr (HeapAt 4)
   \<and> any_cast_ptr_const int_ty 8 (Some \<lparr>info = TInfo int_ty, buff = Obj int_ty (42::int)\<rparr>)
     = Some (Inr BuffData)"
  by (simp add: any_cast_ptr_const_def)

section \<open>Moving between containers\<close>

text \<open>
  C9. When the contained type needs allocation at the source capacity \<open>M\<close> and at the
  destination capacity \<open>N\<close>, move construction from a well-formed source succeeds and
  leaves the store exactly as it was: the log gains no move-constructor call and no
  allocation. The pointer that the pointer form of \<open>any_cast\<close> yields on the new
  container is the heap pointer it yielded on the source before.
\<close>

theorem move_heap_to_heap_hands_over:
  assumes "info other = TInfo T" "NeedsAlloc (TInfo T) M" "NeedsAlloc (TInfo T) N"
    and "wf_any M other m"
  shows "\<exists>p this other'. any_cast_ptr T M (Some other) = Inr (HeapAt p)
           \<and> sized_any_move N M other m = Inr (this, other', m)
           \<and> any_cast_ptr T N (Some this) = Inr (HeapAt p)"
proof -
  from wf_heap [OF assms(4) assms(1) assms(2)]
  obtain p where p: "buff other = Ptr p" by blast
  show ?thesis using assms(1-3) p
    by (simp add: sized_any_move_def)
qed

theorem move_heap_to_heap_hands_over_witness:
  "info \<lparr>info = TInfo string_ty, buff = Ptr 7 :: int slot\<rparr> = TInfo string_ty
   \<and> NeedsAlloc (TInfo string_ty) 16 \<and> NeedsAlloc (TInfo string_ty) 8
   \<and> wf_any 16 \<lparr>info = TInfo string_ty, buff = Ptr 7\<rparr>
        \<lparr>heap = [7 \<mapsto> Block 32 (Some (string_ty, 5::int))], room = 0, next_addr = 8, log = []\<rparr>
   \<and> any_cast_ptr string_ty 16 (Some \<lparr>info = TInfo string_ty, buff = Ptr 7 :: int slot\<rparr>)
        = Inr (HeapAt 7)
   \<and> sized_any_move 8 16 \<lparr>info = TInfo string_ty, buff = Ptr 7\<rparr>
        \<lparr>heap = [7 \<mapsto> Block 32 (Some (string_ty, 5::int))], room = 0, next_addr = 8, log = []\<rparr>
      = Inr (\<lparr>info = TInfo string_ty, buff = Ptr 7\<rparr>, \<lparr>info = TVoid, buff = Ptr 7\<rparr>,
             \<lparr>heap = [7 \<mapsto> Block 32 (Some (string_ty, 5::int))], room = 0, next_addr = 8, log = []\<rparr>)"
  using move_heap_to_heap_hands_over [of "\<lparr>info = TInfo string_ty, buff = Ptr 7 :: int slot\<rparr>"
          string_ty 16 8
          "\<lparr>heap = [7 \<mapsto> Block 32 (Some (string_ty, 5::int))], room = 0, next_addr = 8, log = []\<rparr>"]
  by (simp add: wf_any_def sized_any_move_def)





lemma sized_any_move_succeeds:
  assumes "wf_any M other m"
    and "0 < room m \<or> NeedsAlloc (info other) M \<or> \<not> NeedsAlloc (info other) N"
  shows "\<exists>this other' m'. sized_any_move N M other m = Inr (this, other', m')"
  using Move_wf_cases [OF assms(1), of N Raw] assms(2)
  by (auto simp: sized_any_move_def split: prod.splits)












text \<open>
  C1. Move construction of a capacity-\<open>N\<close> container from a capacity-\<open>M\<close> container is
  declared \<^verbatim>\<open>noexcept\<close> exactly when \<open>M \<le> N\<close>, and then it does return from every
  well-formed source. When the value sits inline at \<open>M\<close> and needs a block at \<open>N\<close>
  (which forces \<open>N < M\<close>), the move calls \<^verbatim>\<open>operator new\<close>, and it fails with
  \<^verbatim>\<open>std::bad_alloc\<close> when the allocator has no room.
\<close>

theorem move_ctor_noexcept_iff:
  "(move_ctor_noexcept N M \<longleftrightarrow> M \<le> N)
   \<and> (M \<le> N \<longrightarrow> wf_any M other m \<longrightarrow> (\<exists>r. sized_any_move N M other m = Inr r))
   \<and> (wf_any M other m \<longrightarrow> \<not> NeedsAlloc (info other) M \<longrightarrow> NeedsAlloc (info other) N
         \<longrightarrow> room m = 0 \<longrightarrow> N < M \<and> sized_any_move N M other m = Inl BadAlloc)
   \<and> (wf_any M other m \<longrightarrow> \<not> NeedsAlloc (info other) M \<longrightarrow> NeedsAlloc (info other) N
         \<longrightarrow> 0 < room m
         \<longrightarrow> (\<exists>this other' m'. sized_any_move N M other m = Inr (this, other', m')
                \<and> New (next_addr m) \<in> set (log m')))"
proof (intro conjI impI)
  show "move_ctor_noexcept N M \<longleftrightarrow> M \<le> N"
    by (auto simp: move_ctor_noexcept_def move_ctor_same_noexcept_def
                   move_ctor_template_noexcept_def)
next
  assume "M \<le> N" "wf_any M other m"
  then show "\<exists>r. sized_any_move N M other m = Inr r"
    using sized_any_move_succeeds [of M other m N] NeedsAlloc_mono [of M N "info other"]
    by blast
next
  assume a: "wf_any M other m" "\<not> NeedsAlloc (info other) M" "NeedsAlloc (info other) N"
    "room m = 0"
  show "N < M" using a(2,3) NeedsAlloc_mono [of M N "info other"] by (meson not_le)
  show "sized_any_move N M other m = Inl BadAlloc"
    using Move_wf_cases [OF a(1), of N Raw] a(2-4)
    by (auto simp: sized_any_move_def)
next
  assume a: "wf_any M other m" "\<not> NeedsAlloc (info other) M" "NeedsAlloc (info other) N"
    "0 < room m"
  from a(3) obtain T where T: "info other = TInfo T" by (cases "info other") auto
  with a(2) have "\<not> NeedsAlloc (TInfo T) M" by simp
  from wf_inline [OF a(1) T this] obtain v where "buff other = Obj T v" by blast
  with T a(2-4)
  show "\<exists>this other' m'. sized_any_move N M other m = Inr (this, other', m')
          \<and> New (next_addr m) \<in> set (log m')"
    by (simp add: sized_any_move_def op_new_def construct_at_def emit_def
             del: NeedsAlloc.simps)
qed

theorem move_ctor_noexcept_iff_witness:
  "move_ctor_noexcept 32 32 \<and> move_ctor_noexcept 32 8 \<and> \<not> move_ctor_noexcept 8 32
   \<and> wf_any 32 \<lparr>info = TInfo string_ty, buff = Obj string_ty 5\<rparr> (fresh_mem 0)
   \<and> \<not> NeedsAlloc (TInfo string_ty) 32 \<and> NeedsAlloc (TInfo string_ty) 8
   \<and> room (fresh_mem 0) = 0
   \<and> sized_any_move 8 32 \<lparr>info = TInfo string_ty, buff = Obj string_ty 5\<rparr> (fresh_mem 0)
       = Inl BadAlloc
   \<and> (\<exists>r. sized_any_move 32 32 \<lparr>info = TInfo string_ty, buff = Obj string_ty 5\<rparr> (fresh_mem 0)
             = Inr r)"
  using move_ctor_noexcept_iff [of 32 32 "\<lparr>info = TInfo string_ty, buff = Obj string_ty 5\<rparr>"
                                   "fresh_mem 0"]
        move_ctor_noexcept_iff [of 32 8 "\<lparr>info = TInfo string_ty, buff = Obj string_ty 5\<rparr>"
                                   "fresh_mem 0"]
        move_ctor_noexcept_iff [of 8 32 "\<lparr>info = TInfo string_ty, buff = Obj string_ty 5\<rparr>"
                                   "fresh_mem 0"]
  by (simp add: wf_any_def)

section \<open>Emplace\<close>

lemma emplace_other:
  assumes "\<not> (NeedsAlloc (TInfo T) N \<and> NeedsAlloc (info c) N \<and> Size (info c) = size_of T)"
  shows "emplace N T v c m = and_then (reset N c m) (\<lambda>(c0, m0). sized_any_in_place N T v m0)"
proof (cases "info c = TVoid")
  case True
  with assms show ?thesis
    by (simp add: emplace_def reset_def sized_any_in_place_def)
next
  case False
  with assms show ?thesis
    by (cases "CleanUp (info c) (buff c) N m")
       (auto simp: emplace_def reset_def sized_any_in_place_def simp del: NeedsAlloc.simps)
qed

lemma emplace_reuse:
  assumes "NeedsAlloc (TInfo T) N" "NeedsAlloc (info c) N" "Size (info c) = size_of T"
    and "wf_any N c m"
  shows "\<exists>U p. info c = TInfo U \<and> buff c = Ptr p
           \<and> emplace N T v c m =
               Inr (\<lparr>info = TInfo T, buff = Ptr p\<rparr>,
                    m\<lparr>heap := (heap m)(p \<mapsto> Block (size_of T) (Some (T, v))),
                      log := log m @ [Destroy U, Construct T]\<rparr>)"
proof -
  from assms(2) obtain U where U: "info c = TInfo U" by (cases "info c") auto
  with assms(2) have "NeedsAlloc (TInfo U) N" by simp
  from wf_heap [OF assms(4) U this] obtain p w where
    p: "buff c = Ptr p" "heap m p = Some (Block (size_of U) (Some (U, w)))" by blast
  from assms(3) U have "size_of U = size_of T" by simp
  with assms(1,2) U p show ?thesis
    by (simp add: emplace_def destroy_at_def construct_at_def del: NeedsAlloc.simps)
qed

lemma emplace_reuses_iff:
  assumes "emplace N T v c m = Inr (c', m')"
  shows "reuses_block c m c' m' \<longleftrightarrow>
           (NeedsAlloc (TInfo T) N \<and> NeedsAlloc (info c) N \<and> Size (info c) = size_of T)"
proof (cases "NeedsAlloc (TInfo T) N \<and> NeedsAlloc (info c) N \<and> Size (info c) = size_of T")
  case True
  then obtain U where U: "info c = TInfo U" by (cases "info c") auto
  from True assms U show ?thesis
    by (auto simp: emplace_def and_then_eq_Inr reuses_block_def allocator_calls_def
                   destroy_at_def construct_at_def
             simp del: NeedsAlloc.simps
             split: slot.splits option.splits block.splits if_splits prod.splits)
next
  case False
  show ?thesis
  proof (cases "NeedsAlloc (TInfo T) N")
    case True
    with False assms obtain b m1 where
      c: "CleanUp (info c) (buff c) N m = Inr (b, m1)" and
      n: "new_obj T v (Construct T) m1 = Inr (next_addr m1, m')"
      by (auto simp: emplace_def and_then_eq_Inr new_obj_eq simp del: NeedsAlloc.simps
               split: if_splits)
    from CleanUp_log [OF c] obtain es where es: "log m1 = log m @ es" by blast
    from n have "log m' = log m1 @ [New (next_addr m1), Construct T]"
      by (auto simp: new_obj_eq split: if_splits)
    with es have "allocator_calls (drop (length (log m)) (log m')) \<noteq> []"
      by (simp add: allocator_calls_def)
    with False show ?thesis by (simp add: reuses_block_def)
  next
    case F: False
    with assms have "buff c' = Obj T v"
      by (auto simp: emplace_def and_then_eq_Inr simp del: NeedsAlloc.simps)
    with F show ?thesis
      by (auto simp: reuses_block_def split: slot.splits)
  qed
qed

lemma emplace_old_heap:
  assumes "wf_any N c m" "info c = TInfo U" "NeedsAlloc (TInfo U) N"
    and "\<not> (NeedsAlloc (TInfo T) N \<and> size_of U = size_of T)"
  shows "\<exists>p w. buff c = Ptr p \<and> heap m p = Some (Block (size_of U) (Some (U, w)))
           \<and> emplace N T v c m =
               (if NeedsAlloc (TInfo T) N
                then Inr (\<lparr>info = TInfo T, buff = Ptr (next_addr m)\<rparr>,
                          m\<lparr>heap := ((heap m)(p := None))
                                       (next_addr m \<mapsto> Block (size_of T) (Some (T, v))),
                            room := room m,
                            next_addr := Suc (next_addr m),
                            log := log m @ [Destroy U, Delete p, New (next_addr m),
                                            Construct T]\<rparr>)
                else Inr (\<lparr>info = TInfo T, buff = Obj T v\<rparr>,
                          m\<lparr>heap := (heap m)(p := None),
                            room := Suc (room m),
                            log := log m @ [Destroy U, Delete p, Construct T]\<rparr>))"
proof -
  from wf_heap [OF assms(1-3)] obtain p w where
    p: "buff c = Ptr p" "heap m p = Some (Block (size_of U) (Some (U, w)))" by blast
  with assms(2-4) show ?thesis
    by (auto simp: emplace_def delete_obj_eq new_obj_eq emit_def simp del: NeedsAlloc.simps)
qed

lemma emplace_old_inline:
  assumes "wf_any N c m" "info c = TInfo U" "\<not> NeedsAlloc (TInfo U) N"
  shows "emplace N T v c m =
           (if NeedsAlloc (TInfo T) N
            then if room m = 0 then Inl BadAlloc
                 else Inr (\<lparr>info = TInfo T, buff = Ptr (next_addr m)\<rparr>,
                           m\<lparr>heap := (heap m)(next_addr m \<mapsto> Block (size_of T) (Some (T, v))),
                             room := room m - 1,
                             next_addr := Suc (next_addr m),
                             log := log m @ [Destroy U, New (next_addr m), Construct T]\<rparr>)
            else Inr (\<lparr>info = TInfo T, buff = Obj T v\<rparr>,
                      m\<lparr>log := log m @ [Destroy U, Construct T]\<rparr>))"
proof -
  from wf_inline [OF assms] obtain w where "buff c = Obj U w" by blast
  with assms(2,3) show ?thesis
    by (auto simp: emplace_def new_obj_eq emit_def simp del: NeedsAlloc.simps)
qed

lemma emplace_old_void:
  assumes "info c = TVoid"
  shows "emplace N T v c m =
           (if NeedsAlloc (TInfo T) N
            then if room m = 0 then Inl BadAlloc
                 else Inr (\<lparr>info = TInfo T, buff = Ptr (next_addr m)\<rparr>,
                           m\<lparr>heap := (heap m)(next_addr m \<mapsto> Block (size_of T) (Some (T, v))),
                             room := room m - 1,
                             next_addr := Suc (next_addr m),
                             log := log m @ [New (next_addr m), Construct T]\<rparr>)
            else Inr (\<lparr>info = TInfo T, buff = Obj T v\<rparr>,
                      m\<lparr>log := log m @ [Construct T]\<rparr>))"
  using assms
  by (auto simp: emplace_def new_obj_eq emit_def simp del: NeedsAlloc.simps(2))

text \<open>
  C3. Call the reuse condition: the new type needs allocation at \<open>N\<close>, the contained
  type needs allocation at \<open>N\<close>, and the two report the same size. Whenever \<open>emplace\<close>
  returns, it has reused the container's heap block (same pointer, allocator not
  called) exactly when the reuse condition holds. Under the condition, on a well-formed
  container, it returns with the old value destroyed and the new one constructed in
  the old block. Otherwise it does what \<open>reset\<close> followed by in-place construction of
  a new container does, and on a well-formed container that is: a heap-held old value
  is destroyed and its block deleted, an old value held in place is destroyed, and
  only then is the new value constructed, in a block newly obtained from
  \<^verbatim>\<open>operator new\<close> or in the buffer. This covers a heap-held old value and a
  heap-held new type of different sizes.
\<close>

theorem emplace_reuse_iff:
  "(emplace N T v c m = Inr (c', m') \<longrightarrow>
      (reuses_block c m c' m' \<longleftrightarrow>
         (NeedsAlloc (TInfo T) N \<and> NeedsAlloc (info c) N \<and> Size (info c) = size_of T)))
   \<and> (NeedsAlloc (TInfo T) N \<and> NeedsAlloc (info c) N \<and> Size (info c) = size_of T
        \<longrightarrow> wf_any N c m
        \<longrightarrow> (\<exists>U p. info c = TInfo U \<and> buff c = Ptr p
               \<and> emplace N T v c m =
                   Inr (\<lparr>info = TInfo T, buff = Ptr p\<rparr>,
                        m\<lparr>heap := (heap m)(p \<mapsto> Block (size_of T) (Some (T, v))),
                          log := log m @ [Destroy U, Construct T]\<rparr>)))
   \<and> (\<not> (NeedsAlloc (TInfo T) N \<and> NeedsAlloc (info c) N \<and> Size (info c) = size_of T)
        \<longrightarrow> emplace N T v c m
              = and_then (reset N c m) (\<lambda>(c0, m0). sized_any_in_place N T v m0))
   \<and> (wf_any N c m \<longrightarrow> info c = TInfo V \<longrightarrow> NeedsAlloc (TInfo V) N
        \<longrightarrow> \<not> (NeedsAlloc (TInfo T) N \<and> size_of V = size_of T)
        \<longrightarrow> (\<exists>p w. buff c = Ptr p \<and> heap m p = Some (Block (size_of V) (Some (V, w)))
               \<and> emplace N T v c m =
                   (if NeedsAlloc (TInfo T) N
                    then Inr (\<lparr>info = TInfo T, buff = Ptr (next_addr m)\<rparr>,
                              m\<lparr>heap := ((heap m)(p := None))
                                           (next_addr m \<mapsto> Block (size_of T) (Some (T, v))),
                                room := room m,
                                next_addr := Suc (next_addr m),
                                log := log m @ [Destroy V, Delete p, New (next_addr m),
                                                Construct T]\<rparr>)
                    else Inr (\<lparr>info = TInfo T, buff = Obj T v\<rparr>,
                              m\<lparr>heap := (heap m)(p := None),
                                room := Suc (room m),
                                log := log m @ [Destroy V, Delete p, Construct T]\<rparr>))))
   \<and> (wf_any N c m \<longrightarrow> info c = TInfo V \<longrightarrow> \<not> NeedsAlloc (TInfo V) N
        \<longrightarrow> emplace N T v c m =
              (if NeedsAlloc (TInfo T) N
               then if room m = 0 then Inl BadAlloc
                    else Inr (\<lparr>info = TInfo T, buff = Ptr (next_addr m)\<rparr>,
                              m\<lparr>heap := (heap m)
                                           (next_addr m \<mapsto> Block (size_of T) (Some (T, v))),
                                room := room m - 1,
                                next_addr := Suc (next_addr m),
                                log := log m @ [Destroy V, New (next_addr m), Construct T]\<rparr>)
               else Inr (\<lparr>info = TInfo T, buff = Obj T v\<rparr>,
                         m\<lparr>log := log m @ [Destroy V, Construct T]\<rparr>)))
   \<and> (info c = TVoid
        \<longrightarrow> emplace N T v c m =
              (if NeedsAlloc (TInfo T) N
               then if room m = 0 then Inl BadAlloc
                    else Inr (\<lparr>info = TInfo T, buff = Ptr (next_addr m)\<rparr>,
                              m\<lparr>heap := (heap m)
                                           (next_addr m \<mapsto> Block (size_of T) (Some (T, v))),
                                room := room m - 1,
                                next_addr := Suc (next_addr m),
                                log := log m @ [New (next_addr m), Construct T]\<rparr>)
               else Inr (\<lparr>info = TInfo T, buff = Obj T v\<rparr>,
                         m\<lparr>log := log m @ [Construct T]\<rparr>)))"
  using emplace_reuses_iff [of N T v c m c' m'] emplace_reuse [of T N c m v]
        emplace_other [of T N c v m] emplace_old_heap [of N c m V T v]
        emplace_old_inline [of N c m V T v] emplace_old_void [of c N T v m]
  by blast

text \<open>
  A capacity-8 container holding a heap string takes a struct of the same size in the
  string's block. A \<^verbatim>\<open>std::vector<int>\<close>, heap-held too but of another size, gets
  a new block after the string is destroyed and its block deleted; an \<^verbatim>\<open>int\<close>,
  which fits the buffer, goes there after the same release.
\<close>

theorem emplace_reuse_iff_witness:
  "NeedsAlloc (TInfo quad_ty) 8
   \<and> NeedsAlloc (info \<lparr>info = TInfo string_ty, buff = Ptr 4 :: int slot\<rparr>) 8
   \<and> Size (info \<lparr>info = TInfo string_ty, buff = Ptr 4 :: int slot\<rparr>) = size_of quad_ty
   \<and> wf_any 8 \<lparr>info = TInfo string_ty, buff = Ptr 4\<rparr>
        \<lparr>heap = [4 \<mapsto> Block 32 (Some (string_ty, 6::int))], room = 0, next_addr = 5, log = []\<rparr>
   \<and> emplace 8 quad_ty 9 \<lparr>info = TInfo string_ty, buff = Ptr 4\<rparr>
        \<lparr>heap = [4 \<mapsto> Block 32 (Some (string_ty, 6::int))], room = 0, next_addr = 5, log = []\<rparr>
      = Inr (\<lparr>info = TInfo quad_ty, buff = Ptr 4\<rparr>,
             \<lparr>heap = [4 \<mapsto> Block 32 (Some (quad_ty, 9))], room = 0, next_addr = 5,
              log = [Destroy string_ty, Construct quad_ty]\<rparr>)
   \<and> reuses_block \<lparr>info = TInfo string_ty, buff = Ptr 4\<rparr>
        \<lparr>heap = [4 \<mapsto> Block 32 (Some (string_ty, 6::int))], room = 0, next_addr = 5, log = []\<rparr>
        \<lparr>info = TInfo quad_ty, buff = Ptr 4\<rparr>
        \<lparr>heap = [4 \<mapsto> Block 32 (Some (quad_ty, 9))], room = 0, next_addr = 5,
         log = [Destroy string_ty, Construct quad_ty]\<rparr>
   \<and> NeedsAlloc (TInfo vector_ty) 8 \<and> size_of string_ty \<noteq> size_of vector_ty
   \<and> emplace 8 vector_ty 9 \<lparr>info = TInfo string_ty, buff = Ptr 4\<rparr>
        \<lparr>heap = [4 \<mapsto> Block 32 (Some (string_ty, 6::int))], room = 0, next_addr = 5, log = []\<rparr>
      = Inr (\<lparr>info = TInfo vector_ty, buff = Ptr 5\<rparr>,
             \<lparr>heap = [5 \<mapsto> Block 24 (Some (vector_ty, 9))], room = 0, next_addr = 6,
              log = [Destroy string_ty, Delete 4, New 5, Construct vector_ty]\<rparr>)
   \<and> \<not> reuses_block \<lparr>info = TInfo string_ty, buff = Ptr 4\<rparr>
        \<lparr>heap = [4 \<mapsto> Block 32 (Some (string_ty, 6::int))], room = 0, next_addr = 5, log = []\<rparr>
        \<lparr>info = TInfo vector_ty, buff = Ptr 5\<rparr>
        \<lparr>heap = [5 \<mapsto> Block 24 (Some (vector_ty, 9))], room = 0, next_addr = 6,
         log = [Destroy string_ty, Delete 4, New 5, Construct vector_ty]\<rparr>
   \<and> emplace 8 int_ty 9 \<lparr>info = TInfo string_ty, buff = Ptr 4\<rparr>
        \<lparr>heap = [4 \<mapsto> Block 32 (Some (string_ty, 6::int))], room = 0, next_addr = 5, log = []\<rparr>
      = Inr (\<lparr>info = TInfo int_ty, buff = Obj int_ty 9\<rparr>,
             \<lparr>heap = Map.empty, room = 1, next_addr = 5,
              log = [Destroy string_ty, Delete 4, Construct int_ty]\<rparr>)"
proof -
  let ?c = "\<lparr>info = TInfo string_ty, buff = Ptr 4 :: int slot\<rparr>"
  let ?m = "\<lparr>heap = [4 \<mapsto> Block 32 (Some (string_ty, 6::int))], room = 0, next_addr = 5,
              log = []\<rparr>"
  let ?c' = "\<lparr>info = TInfo quad_ty, buff = Ptr 4 :: int slot\<rparr>"
  let ?m' = "\<lparr>heap = [4 \<mapsto> Block 32 (Some (quad_ty, 9::int))], room = 0, next_addr = 5,
               log = [Destroy string_ty, Construct quad_ty]\<rparr>"
  let ?cv = "\<lparr>info = TInfo vector_ty, buff = Ptr 5 :: int slot\<rparr>"
  let ?mv = "\<lparr>heap = [5 \<mapsto> Block 24 (Some (vector_ty, 9::int))], room = 0, next_addr = 6,
               log = [Destroy string_ty, Delete 4, New 5, Construct vector_ty]\<rparr>"
  have cond: "NeedsAlloc (TInfo quad_ty) 8 \<and> NeedsAlloc (info ?c) 8
                \<and> Size (info ?c) = size_of quad_ty"
    by simp
  have w: "wf_any 8 ?c ?m"
    by (simp add: wf_any_def)
  have i: "info ?c = TInfo string_ty" and n: "NeedsAlloc (TInfo string_ty) 8"
    by simp_all
  have nv: "\<not> (NeedsAlloc (TInfo vector_ty) 8 \<and> size_of string_ty = size_of vector_ty)"
    and ni: "\<not> (NeedsAlloc (TInfo int_ty) 8 \<and> size_of string_ty = size_of int_ty)"
    by simp_all
  have condv: "\<not> (NeedsAlloc (TInfo vector_ty) 8 \<and> NeedsAlloc (info ?c) 8
                    \<and> Size (info ?c) = size_of vector_ty)"
    by simp
  note reuse = emplace_reuse_iff [where N = 8 and T = quad_ty and v = 9 and c = ?c and m = ?m
                                    and c' = ?c' and m' = ?m']
  note vec = emplace_reuse_iff [where N = 8 and T = vector_ty and v = 9 and c = ?c and m = ?m
                                  and c' = ?cv and m' = ?mv and V = string_ty]
  note small = emplace_reuse_iff [where N = 8 and T = int_ty and v = 9 and c = ?c and m = ?m
                                    and V = string_ty]
  from reuse cond w have e: "emplace 8 quad_ty 9 ?c ?m = Inr (?c', ?m')"
    by simp
  with reuse cond have r: "reuses_block ?c ?m ?c' ?m'"
    by blast
  note vec4 = vec [THEN conjunct2, THEN conjunct2, THEN conjunct2, THEN conjunct1]
  note small4 = small [THEN conjunct2, THEN conjunct2, THEN conjunct2, THEN conjunct1]
  from vec4 w i n nv have ev: "emplace 8 vector_ty 9 ?c ?m = Inr (?cv, ?mv)"
    by simp
  with vec condv have rv: "\<not> reuses_block ?c ?m ?cv ?mv"
    by blast
  from small4 w i n ni have "emplace 8 int_ty 9 ?c ?m
      = Inr (\<lparr>info = TInfo int_ty, buff = Obj int_ty 9\<rparr>,
             \<lparr>heap = Map.empty, room = 1, next_addr = 5,
              log = [Destroy string_ty, Delete 4, Construct int_ty]\<rparr>)"
    by simp
  with cond w e r ev rv show ?thesis by simp
qed

section \<open>Swap\<close>

text \<open>
  C2. Same-capacity \<open>swap\<close> does relocate through a temporary buffer with three
  descriptor-driven moves and then exchanges the descriptor pointers, but the third
  move, which takes \<open>other\<close>'s value out of the temporary, goes through \<open>this\<close>'s
  descriptor. Swapping an empty capacity-32 container with one that holds the
  \<^verbatim>\<open>int\<close> 1: the value is moved into the temporary and stays there, the void
  descriptor's move being a no-op; the first container ends up with the \<^verbatim>\<open>int\<close>
  descriptor over a buffer that was never written, and extraction from it is undefined.
  The second swap moves those indeterminate bytes on: after it the first container is
  empty again, but the second holds the \<^verbatim>\<open>int\<close> descriptor over indeterminate
  bytes where it held 1, so swapping twice does not restore the contents.
\<close>

theorem swap_same_empty_with_int:
  "swap_body 32 sized_any_default \<lparr>info = TInfo int_ty, buff = Obj int_ty 1\<rparr> (fresh_mem 0)
     = Inr (\<lparr>info = TInfo int_ty, buff = Raw\<rparr>, \<lparr>info = TVoid, buff = Raw\<rparr>,
            \<lparr>heap = Map.empty, room = 0, next_addr = 0,
             log = [MoveConstruct int_ty, Destroy int_ty]\<rparr>)
   \<and> any_cast int_ty 32 \<lparr>info = TInfo int_ty, buff = Raw\<rparr>
        \<lparr>heap = Map.empty, room = 0, next_addr = 0,
         log = [MoveConstruct int_ty, Destroy int_ty]\<rparr> = Inl Undefined
   \<and> contents 32 \<lparr>info = TInfo int_ty, buff = Obj int_ty 1\<rparr> (fresh_mem 0) = Some (int_ty, 1)
   \<and> (case swap_twice 32 0 1
              [0 \<mapsto> sized_any_default, 1 \<mapsto> \<lparr>info = TInfo int_ty, buff = Obj int_ty 1\<rparr>]
              (fresh_mem 0) of
         Inr (os, m) \<Rightarrow>
           os 0 = Some \<lparr>info = TVoid, buff = Raw\<rparr>
           \<and> os 1 = Some \<lparr>info = TInfo int_ty, buff = Raw\<rparr>
           \<and> any_cast int_ty 32 \<lparr>info = TInfo int_ty, buff = Raw\<rparr> m = Inl Undefined
           \<and> contents 32 \<lparr>info = TInfo int_ty, buff = Raw\<rparr> m = None
       | Inl e \<Rightarrow> False)"
  by (simp add: swap_same_def swap_twice_def contents_def run_defs)

text \<open>
  The cross-capacity \<open>swap\<close>, in its branch for a smaller \<open>other\<close>, empties the
  temporary through the descriptor of the value it holds, and the same two containers
  are exchanged as they should be.
\<close>

lemma swap_cross_empty_with_int:
  "swap_cross 64 32 sized_any_default \<lparr>info = TInfo int_ty, buff = Obj int_ty 1\<rparr> (fresh_mem 0)
     = Inr (\<lparr>info = TInfo int_ty, buff = Obj int_ty 1\<rparr>, \<lparr>info = TVoid, buff = Raw\<rparr>,
            \<lparr>heap = Map.empty, room = 0, next_addr = 0,
             log = [MoveConstruct int_ty, Destroy int_ty]\<rparr>)"
  by (simp add: swap_cross_def run_defs)

section \<open>The repository's tests, run on the model\<close>

lemma test_Empty:
  "\<not> has_value (sized_any_default :: int sized_any)
   \<and> info (sized_any_default :: int sized_any) = TVoid"
  by (simp add: run_defs)

lemma test_Int:
  "sized_any_value 32 int_ty 42 (fresh_mem 0)
     = Inr (\<lparr>info = TInfo int_ty, buff = Obj int_ty 42\<rparr>,
            \<lparr>heap = Map.empty, room = 0, next_addr = 0, log = [Construct int_ty]\<rparr>)
   \<and> has_value \<lparr>info = TInfo int_ty, buff = Obj int_ty (42::int)\<rparr>
   \<and> any_cast int_ty 32 \<lparr>info = TInfo int_ty, buff = Obj int_ty 42\<rparr> (fresh_mem 0) = Inr 42"
  by (simp add: run_defs)

lemma test_Move:
  "sized_any_move 32 32 \<lparr>info = TInfo int_ty, buff = Obj int_ty 123\<rparr> (fresh_mem 0)
     = Inr (\<lparr>info = TInfo int_ty, buff = Obj int_ty 123\<rparr>, \<lparr>info = TVoid, buff = Raw\<rparr>,
            \<lparr>heap = Map.empty, room = 0, next_addr = 0,
             log = [MoveConstruct int_ty, Destroy int_ty]\<rparr>)"
  by (simp add: run_defs)

lemma test_Copy:
  "sized_any_copy 32 32 \<lparr>info = TInfo int_ty, buff = Obj int_ty 55\<rparr> (fresh_mem 0)
     = Inr (\<lparr>info = TInfo int_ty, buff = Obj int_ty 55\<rparr>,
            \<lparr>heap = Map.empty, room = 0, next_addr = 0, log = [CopyConstruct int_ty]\<rparr>)"
  by (simp add: run_defs)

lemma test_Reset:
  "reset 32 \<lparr>info = TInfo int_ty, buff = Obj int_ty 99\<rparr> (fresh_mem 0)
     = Inr (\<lparr>info = TVoid, buff = Raw\<rparr>,
            \<lparr>heap = Map.empty, room = 0, next_addr = 0, log = [Destroy int_ty]\<rparr>)"
  by (simp add: run_defs)

lemma test_Swap:
  "swap_body 32 \<lparr>info = TInfo int_ty, buff = Obj int_ty 1\<rparr>
       \<lparr>info = TInfo int_ty, buff = Obj int_ty 2\<rparr> (fresh_mem 0)
     = Inr (\<lparr>info = TInfo int_ty, buff = Obj int_ty 2\<rparr>,
            \<lparr>info = TInfo int_ty, buff = Obj int_ty 1\<rparr>,
            \<lparr>heap = Map.empty, room = 0, next_addr = 0,
             log = [MoveConstruct int_ty, Destroy int_ty, MoveConstruct int_ty, Destroy int_ty,
                    MoveConstruct int_ty, Destroy int_ty]\<rparr>)"
  by (simp add: run_defs)

lemma test_BadCast:
  "any_cast string_ty 32 \<lparr>info = TInfo int_ty, buff = Obj int_ty 42\<rparr> (fresh_mem 0)
     = Inl BadAnyCast"
  by (simp add: run_defs)

end
